theory Spec2Isabelle
  imports
    Main
    "HOL-Library.Word"
    "HOL-Library.AList"
    "HOL-Library.Char_ord"
    "HOL-Library.List_Lexorder"
begin

section \<open>Fixed-point decimals\<close>

text \<open>
  The oracle computes with \<^verbatim>\<open>math.LegacyDec\<close> of \<^verbatim>\<open>cosmossdk.io/math\<close>: a big
  integer holding the value scaled by \<open>10^18\<close>. The library is a dependency of the
  repository, so its operations are written out here as the library defines them:
  \<^verbatim>\<open>Add\<close> and \<^verbatim>\<open>Sub\<close> are exact, \<^verbatim>\<open>Mul\<close> and \<^verbatim>\<open>Quo\<close> round the 19th digit half to even
  (\<^verbatim>\<open>chopPrecisionAndRound\<close>), \<^verbatim>\<open>QuoInt64\<close> and \<^verbatim>\<open>big.Int.Quo\<close> truncate toward zero,
  and a division by zero panics. A \<^verbatim>\<open>LegacyDec\<close> is the integer it holds. The library
  also panics when a result outgrows its maximal bit length (beyond \<open>10^76\<close>); the model
  leaves that bound out, its integers are unbounded.
\<close>

type_synonym LegacyDec = int

datatype panic = IndexOutOfRange | DivisionByZero | NilPointerDereference

definition precisionReuse :: int where
  "precisionReuse = 10 ^ 18"

definition fivePrecision :: int where
  "fivePrecision = precisionReuse div 2"

definition big_Quo :: "int \<Rightarrow> int \<Rightarrow> int" where
  \<comment> \<open>\<^verbatim>\<open>big.Int.Quo\<close>: the quotient truncated toward zero, for a divisor other than zero.\<close>
  "big_Quo x y = sgn x * sgn y * (\<bar>x\<bar> div \<bar>y\<bar>)"

definition chopPrecisionAndRound :: "int \<Rightarrow> int" where
  "chopPrecisionAndRound d =
     (let a = \<bar>d\<bar>;
          quo = a div precisionReuse;
          rem = a mod precisionReuse;
          r = (if rem = 0 then quo
               else if rem < fivePrecision then quo
               else if fivePrecision < rem then quo + 1
               else if even quo then quo else quo + 1)
      in if d < 0 then - r else r)"

definition LegacyZeroDec :: LegacyDec where
  "LegacyZeroDec = 0"

definition LegacyNewDec :: "int \<Rightarrow> LegacyDec" where
  "LegacyNewDec n = n * precisionReuse"

definition Add :: "LegacyDec \<Rightarrow> LegacyDec \<Rightarrow> LegacyDec" where
  "Add d d2 = d + d2"

definition Sub :: "LegacyDec \<Rightarrow> LegacyDec \<Rightarrow> LegacyDec" where
  "Sub d d2 = d - d2"

definition Mul :: "LegacyDec \<Rightarrow> LegacyDec \<Rightarrow> LegacyDec" where
  "Mul d d2 = chopPrecisionAndRound (d * d2)"

definition quoRound :: "LegacyDec \<Rightarrow> LegacyDec \<Rightarrow> LegacyDec" where
  \<comment> \<open>what \<^verbatim>\<open>QuoMut\<close> computes once the divisor is known not to be zero\<close>
  "quoRound d d2 = chopPrecisionAndRound (big_Quo (d * (precisionReuse * precisionReuse)) d2)"

definition Quo :: "LegacyDec \<Rightarrow> LegacyDec \<Rightarrow> panic + LegacyDec" where
  "Quo d d2 = (if d2 = 0 then Inl DivisionByZero else Inr (quoRound d d2))"


definition minimumTimeWeight :: LegacyDec where
  \<comment> \<open>\<^verbatim>\<open>math.LegacyMustNewDecFromStr("0.2")\<close>\<close>
  "minimumTimeWeight = 2 * 10 ^ 17"

section \<open>Provider data\<close>

text \<open>
  A Go map with string keys is a list of key and value pairs with distinct keys; the
  order of the list is the order in which a \<^verbatim>\<open>range\<close> loop happens to visit the map, so
  a statement about every list is a statement about every iteration order.
  \<^verbatim>\<open>m[k] = v\<close> is \<open>AList.update k v m\<close> and the comma-ok read is \<open>map_of m k\<close>.
\<close>

type_synonym 'v gomap = "(string \<times> 'v) list"

record TickerPrice =
  Price :: LegacyDec
  Volume :: LegacyDec

record CandlePrice = TickerPrice +
  TimeStamp :: "64 word"

type_synonym AggregatedProviderPrices = "TickerPrice gomap gomap"

type_synonym AggregatedProviderCandles = "CandlePrice list gomap gomap"

definition ensureZero :: "LegacyDec gomap \<Rightarrow> string \<Rightarrow> LegacyDec gomap" where
  \<comment> \<open>\<^verbatim>\<open>if _, ok := m[base]; !ok { m[base] = math.LegacyZeroDec() }\<close>\<close>
  "ensureZero m base = (case map_of m base of None \<Rightarrow> AList.update base LegacyZeroDec m | Some _ \<Rightarrow> m)"

definition getDec :: "LegacyDec gomap \<Rightarrow> string \<Rightarrow> LegacyDec" where
  \<comment> \<open>\<^verbatim>\<open>m[base]\<close> read as a value; the source reads a key only after \<open>ensureZero\<close> made it.\<close>
  "getDec m base = (case map_of m base of None \<Rightarrow> LegacyZeroDec | Some d \<Rightarrow> d)"

definition addAt :: "LegacyDec gomap \<Rightarrow> string \<Rightarrow> LegacyDec \<Rightarrow> LegacyDec gomap" where
  \<comment> \<open>\<^verbatim>\<open>m[base] = m[base].Add(x)\<close>\<close>
  "addAt m base x = AList.update base (Add (getDec m base) x) m"

section \<open>VWAP\<close>

fun vwap_loop :: "LegacyDec gomap \<Rightarrow> LegacyDec gomap \<Rightarrow> LegacyDec gomap \<Rightarrow> panic + LegacyDec gomap" where
  "vwap_loop [] volumeSum res = Inr res"
| "vwap_loop ((base, p) # rest) volumeSum res =
     (case map_of volumeSum base of
        None \<Rightarrow> Inl NilPointerDereference
      | Some v \<Rightarrow>
          if v \<noteq> LegacyZeroDec then
            (case Quo p v of
               Inl e \<Rightarrow> Inl e
             | Inr q \<Rightarrow> vwap_loop rest volumeSum (AList.update base q (ensureZero res base)))
          else vwap_loop rest volumeSum res)"

definition vwap :: "LegacyDec gomap \<Rightarrow> LegacyDec gomap \<Rightarrow> panic + LegacyDec gomap" where
  \<comment> \<open>The error the source returns beside the map is always nil; what is left of a
      failure is a panic.\<close>
  "vwap weightedPrices volumeSum = vwap_loop weightedPrices volumeSum []"

fun vwap_tickers ::
  "TickerPrice gomap \<Rightarrow> LegacyDec gomap \<times> LegacyDec gomap \<Rightarrow> LegacyDec gomap \<times> LegacyDec gomap" where
  "vwap_tickers [] acc = acc"
| "vwap_tickers ((base, tp) # rest) (weightedPrices, volumeSum) =
     (let weightedPrices1 = ensureZero weightedPrices base;
          volumeSum1 = ensureZero volumeSum base;
          weightedPrices2 = addAt weightedPrices1 base (Mul (Price tp) (Volume tp));
          volumeSum2 = addAt volumeSum1 base (Volume tp)
      in vwap_tickers rest (weightedPrices2, volumeSum2))"

fun vwap_providers ::
  "AggregatedProviderPrices \<Rightarrow> LegacyDec gomap \<times> LegacyDec gomap \<Rightarrow> LegacyDec gomap \<times> LegacyDec gomap" where
  "vwap_providers [] acc = acc"
| "vwap_providers ((name, providerPrices) # rest) acc =
     vwap_providers rest (vwap_tickers providerPrices acc)"

definition ComputeVWAP :: "AggregatedProviderPrices \<Rightarrow> panic + LegacyDec gomap" where
  "ComputeVWAP prices =
     (case vwap_providers prices ([], []) of
        (weightedPrices, volumeSum) \<Rightarrow> vwap weightedPrices volumeSum)"





section \<open>TVWAP\<close>

text \<open>
  \<open>ComputeTVWAP\<close> reads the clock through \<^verbatim>\<open>provider.PastUnixTime\<close>, once for \<open>now\<close> and
  once for \<open>timePeriod\<close> (five minutes earlier), and replaces \<open>now\<close> by the package
  variable \<open>mockNow\<close> when that is positive. The two clock readings and \<open>mockNow\<close> are
  arguments of the model. Timestamps are \<^verbatim>\<open>int64\<close>: the subtraction wraps and the
  comparisons are signed.
\<close>

definition weightUnitOf :: "LegacyDec \<Rightarrow> panic + LegacyDec" where
  \<comment> \<open>\<^verbatim>\<open>weightUnit := math.LegacyZeroDec().Sub(minimumTimeWeight)\<close>, divided by the
      period when the period is not zero\<close>
  "weightUnitOf period =
     (let weightUnit = Sub LegacyZeroDec minimumTimeWeight
      in if period \<noteq> LegacyZeroDec then Quo weightUnit period else Inr weightUnit)"

definition candleWeight :: "LegacyDec \<Rightarrow> LegacyDec \<Rightarrow> LegacyDec \<Rightarrow> LegacyDec" where
  \<comment> \<open>the factor of \<^verbatim>\<open>candle.Volume\<close>:
      \<^verbatim>\<open>weightUnit.Mul(period.Sub(timeDiff).Add(minimumTimeWeight))\<close>\<close>
  "candleWeight weightUnit period timeDiff =
     Mul weightUnit (Add (Sub period timeDiff) minimumTimeWeight)"

fun tvwap_candles ::
  "64 word \<Rightarrow> 64 word \<Rightarrow> LegacyDec \<Rightarrow> LegacyDec \<Rightarrow> string \<Rightarrow> CandlePrice list \<Rightarrow>
   LegacyDec gomap \<times> LegacyDec gomap \<Rightarrow> LegacyDec gomap \<times> LegacyDec gomap" where
  "tvwap_candles now timePeriod period weightUnit base [] acc = acc"
| "tvwap_candles now timePeriod period weightUnit base (candle # rest) (weightedPrices, volumeSum) =
     (if sint timePeriod < sint (TimeStamp candle) then
        (let timeDiff = LegacyNewDec (sint (now - TimeStamp candle));
             volume = Mul (Volume candle) (candleWeight weightUnit period timeDiff);
             volumeSum1 = addAt volumeSum base volume;
             weightedPrices1 = addAt weightedPrices base (Mul (Price candle) volume)
         in tvwap_candles now timePeriod period weightUnit base rest (weightedPrices1, volumeSum1))
      else tvwap_candles now timePeriod period weightUnit base rest (weightedPrices, volumeSum))"

definition tvwap_base ::
  "64 word \<Rightarrow> 64 word \<Rightarrow> string \<Rightarrow> CandlePrice list \<Rightarrow>
   LegacyDec gomap \<times> LegacyDec gomap \<Rightarrow> panic + LegacyDec gomap \<times> LegacyDec gomap" where
  \<comment> \<open>the body of the loop over the bases of one provider; \<^verbatim>\<open>cp[0]\<close> of an empty
      slice panics\<close>
  "tvwap_base now timePeriod base cp0 acc =
     (let weightedPrices1 = ensureZero (fst acc) base;
          volumeSum1 = ensureZero (snd acc) base;
          cp = sort_key (\<lambda>c. sint (TimeStamp c)) cp0
      in case cp of
           [] \<Rightarrow> Inl IndexOutOfRange
         | oldest # _ \<Rightarrow>
             (let period = LegacyNewDec (sint (now - TimeStamp oldest))
              in case weightUnitOf period of
                   Inl e \<Rightarrow> Inl e
                 | Inr weightUnit \<Rightarrow>
                     Inr (tvwap_candles now timePeriod period weightUnit base cp
                            (weightedPrices1, volumeSum1))))"

fun tvwap_bases ::
  "64 word \<Rightarrow> 64 word \<Rightarrow> CandlePrice list gomap \<Rightarrow>
   LegacyDec gomap \<times> LegacyDec gomap \<Rightarrow> panic + LegacyDec gomap \<times> LegacyDec gomap" where
  "tvwap_bases now timePeriod [] acc = Inr acc"
| "tvwap_bases now timePeriod ((base, cp) # rest) acc =
     (case tvwap_base now timePeriod base cp acc of
        Inl e \<Rightarrow> Inl e
      | Inr acc1 \<Rightarrow> tvwap_bases now timePeriod rest acc1)"

fun tvwap_providers ::
  "64 word \<Rightarrow> 64 word \<Rightarrow> AggregatedProviderCandles \<Rightarrow>
   LegacyDec gomap \<times> LegacyDec gomap \<Rightarrow> panic + LegacyDec gomap \<times> LegacyDec gomap" where
  "tvwap_providers now timePeriod [] acc = Inr acc"
| "tvwap_providers now timePeriod ((name, providerPrices) # rest) acc =
     (case tvwap_bases now timePeriod providerPrices acc of
        Inl e \<Rightarrow> Inl e
      | Inr acc1 \<Rightarrow> tvwap_providers now timePeriod rest acc1)"

definition effectiveNow :: "64 word \<Rightarrow> 64 word \<Rightarrow> 64 word" where
  \<comment> \<open>\<^verbatim>\<open>if mockNow > 0 { now = mockNow }\<close>\<close>
  "effectiveNow clockNow mockNow = (if 0 < sint mockNow then mockNow else clockNow)"

definition tvwap_sums ::
  "64 word \<Rightarrow> 64 word \<Rightarrow> 64 word \<Rightarrow> AggregatedProviderCandles \<Rightarrow>
   panic + LegacyDec gomap \<times> LegacyDec gomap" where
  \<comment> \<open>\<open>weightedPrices\<close> and \<open>volumeSum\<close> as they stand when the loops are done\<close>
  "tvwap_sums clockNow timePeriod mockNow prices =
     tvwap_providers (effectiveNow clockNow mockNow) timePeriod prices ([], [])"

definition ComputeTVWAP ::
  "64 word \<Rightarrow> 64 word \<Rightarrow> 64 word \<Rightarrow> AggregatedProviderCandles \<Rightarrow> panic + LegacyDec gomap" where
  "ComputeTVWAP clockNow timePeriod mockNow prices =
     (case tvwap_sums clockNow timePeriod mockNow prices of
        Inl e \<Rightarrow> Inl e
      | Inr (weightedPrices, volumeSum) \<Rightarrow> vwap weightedPrices volumeSum)"



definition accInv :: "LegacyDec gomap \<times> LegacyDec gomap \<Rightarrow> bool" where
  \<comment> \<open>what the two loops keep of \<open>weightedPrices\<close> and \<open>volumeSum\<close>: distinct keys, and every
      key of the first is a key of the second\<close>
  "accInv acc = (distinct (map fst (fst acc)) \<and> (\<forall>b. map_of (fst acc) b \<noteq> None \<longrightarrow> map_of (snd acc) b \<noteq> None))"



section \<open>Collecting one provider's answer\<close>

record CurrencyPair =
  Base :: string
  Quote :: string

definition CurrencyPair_String :: "CurrencyPair \<Rightarrow> string" where
  \<comment> \<open>Modelled from the spec: \<^verbatim>\<open>CurrencyPair.String()\<close> of the \<^verbatim>\<open>oracle/types\<close> package, which
      is not among the sources, is the base followed by the quote.\<close>
  "CurrencyPair_String pair = Base pair @ Quote pair"

definition ensureMap :: "'v gomap gomap \<Rightarrow> string \<Rightarrow> 'v gomap gomap" where
  \<comment> \<open>\<^verbatim>\<open>if _, ok := m[name]; !ok { m[name] = make(map[string]V) }\<close>\<close>
  "ensureMap m name = (case map_of m name of None \<Rightarrow> AList.update name [] m | Some _ \<Rightarrow> m)"

definition setInner :: "'v gomap gomap \<Rightarrow> string \<Rightarrow> string \<Rightarrow> 'v \<Rightarrow> 'v gomap gomap" where
  \<comment> \<open>\<^verbatim>\<open>m[name][base] = v\<close>, for a \<open>name\<close> that \<open>ensureMap\<close> has made\<close>
  "setInner m name base v =
     AList.update name (AList.update base v (case map_of m name of None \<Rightarrow> [] | Some inner \<Rightarrow> inner)) m"

definition SetProviderTickerPricesAndCandles ::
  "string \<Rightarrow> AggregatedProviderPrices \<Rightarrow> AggregatedProviderCandles \<Rightarrow>
   TickerPrice gomap \<Rightarrow> CandlePrice list gomap \<Rightarrow> CurrencyPair \<Rightarrow>
   bool \<times> AggregatedProviderPrices \<times> AggregatedProviderCandles" where
  \<comment> \<open>The two aggregates are updated in place by the source; the model returns them
      beside \<open>success\<close>. A nil answer of a provider is the empty map.\<close>
  "SetProviderTickerPricesAndCandles providerName providerPrices providerCandles prices candles pair =
     (let providerPrices1 = ensureMap providerPrices providerName;
          providerCandles1 = ensureMap providerCandles providerName;
          tp = map_of prices (CurrencyPair_String pair);
          cp = map_of candles (CurrencyPair_String pair);
          providerPrices2 =
            (case tp of
               None \<Rightarrow> providerPrices1
             | Some t \<Rightarrow> setInner providerPrices1 providerName (Base pair) t);
          providerCandles2 =
            (case cp of
               None \<Rightarrow> providerCandles1
             | Some c \<Rightarrow> setInner providerCandles1 providerName (Base pair) c)
      in (tp \<noteq> None \<or> cp \<noteq> None, providerPrices2, providerCandles2))"

section \<open>Concrete inputs\<close>






definition fresh_candles :: AggregatedProviderCandles where
  \<comment> \<open>two candles inside the window, 60 and 30 seconds before \<open>now = 1000000\<close>\<close>
  "fresh_candles =
     [(''p'', [(''ATOM'',
        [\<lparr>Price = LegacyNewDec 10, Volume = LegacyNewDec 1, TimeStamp = 940000\<rparr>,
         \<lparr>Price = LegacyNewDec 12, Volume = LegacyNewDec 3, TimeStamp = 970000\<rparr>])])]"

section \<open>Standard deviation\<close>













section \<open>The oracle\<close>

text \<open>
  The oracle's state is the struct \<^verbatim>\<open>Oracle\<close>. Of its fields the record keeps those the
  functions below read or write; the logger, the closer, the mutex, the endpoints and
  the time of the last sync are left out. An error value is one of the errors the
  sources build, or \<open>External\<close> for an error that a collaborator outside the sources
  returns. The variable \<^verbatim>\<open>o\<close> of the source is \<open>orc\<close>.
\<close>

datatype error =
    ProviderNotFound string
  | FailedAtFirstInit error
  | MissingRate string
  | ExpectedPositiveBlockHeight
  | ValidatorJailed string
  | External string

datatype Provider = Provider string

record Denom =
  Name :: string

record Params =
  VotePeriod :: "64 word"
  Whitelist :: "Denom list"

datatype float64 = Finite int | PosInf | NegInf

record Oracle =
  providerPairs :: "CurrencyPair list gomap"
  chainDenomMapping :: "string gomap"
  previousVotePeriod :: float64
  priceProviders :: "Provider gomap"
  failedProviders :: "error gomap"
  deviations :: "LegacyDec gomap"
  prices :: "LegacyDec gomap"
  paramCache_params :: Params
  healthchecks :: "nat gomap"
  mockSetPrices :: "error option option"
  ValidatorAddrString :: string
  OracleAddrString :: string

subsection \<open>Provider adapters\<close>

text \<open>
  \<open>NewProvider\<close> switches on the provider's name and runs the constructor of that
  exchange; a name outside the switch is an error. The constructors and the names of
  the cases belong to packages that are not among the sources, so the model takes
  them as a partial map from the names of the cases to what each constructor returns
  when it is run. \<open>getOrSetProvider\<close> returns, beside its result and the oracle, the
  names it passed to \<open>NewProvider\<close>.
\<close>

definition NewProvider :: "(string \<rightharpoonup> error + Provider) \<Rightarrow> string \<Rightarrow> error + Provider" where
  "NewProvider constructors providerName =
     (case constructors providerName of
        None \<Rightarrow> Inl (ProviderNotFound providerName)
      | Some made \<Rightarrow> made)"

definition getOrSetProvider ::
  "(string \<rightharpoonup> error + Provider) \<Rightarrow> Oracle \<Rightarrow> string \<Rightarrow> (error + Provider) \<times> Oracle \<times> string list" where
  "getOrSetProvider constructors orc providerName =
     (case map_of (failedProviders orc) providerName of
        Some err \<Rightarrow> (Inl (FailedAtFirstInit err), orc, [])
      | None \<Rightarrow>
          (case map_of (priceProviders orc) providerName of
             Some priceProvider \<Rightarrow> (Inr priceProvider, orc, [])
           | None \<Rightarrow>
               (case NewProvider constructors providerName of
                  Inl err \<Rightarrow>
                    (Inl err,
                     orc\<lparr>failedProviders := AList.update providerName err (failedProviders orc)\<rparr>,
                     [providerName])
                | Inr newProvider \<Rightarrow>
                    (Inr newProvider,
                     orc\<lparr>priceProviders := AList.update providerName newProvider (priceProviders orc)\<rparr>,
                     [providerName]))))"

fun providerCalls ::
  "((string \<rightharpoonup> error + Provider) \<times> string) list \<Rightarrow> Oracle \<Rightarrow>
   (error + Provider) list \<times> Oracle \<times> string list" where
  \<comment> \<open>any sequence of calls of \<open>getOrSetProvider\<close> in one process, each with the
      constructors as they would answer at that moment\<close>
  "providerCalls [] orc = ([], orc, [])"
| "providerCalls ((constructors, providerName) # rest) orc =
     (case getOrSetProvider constructors orc providerName of
        (r, orc1, made) \<Rightarrow>
          (case providerCalls rest orc1 of
             (rs, orc2, made2) \<Rightarrow> (r # rs, orc2, made @ made2)))"

definition settled :: "Oracle \<Rightarrow> string \<Rightarrow> error + Provider \<Rightarrow> bool" where
  \<comment> \<open>the oracle already holds the answer \<open>r\<close> for the provider \<open>n\<close>\<close>
  "settled orc n r =
     (case map_of (failedProviders orc) n of
        Some err \<Rightarrow> r = Inl (FailedAtFirstInit err)
      | None \<Rightarrow> (case map_of (priceProviders orc) n of Some p \<Rightarrow> r = Inr p | None \<Rightarrow> False))"

definition known :: "Oracle \<Rightarrow> string \<Rightarrow> bool" where
  "known orc n = (map_of (failedProviders orc) n \<noteq> None \<or> map_of (priceProviders orc) n \<noteq> None)"

subsection \<open>SetPrices\<close>

text \<open>
  One task per provider asks for tickers and candles and gives up after the provider
  timeout. What a task hands over is \<open>TimedOut\<close> or the two maps it read (a nil map is
  the empty map). Each task writes under the mutex and only under its own provider
  name, so the model merges the answers in the order of the loop. The functions that
  convert and filter the aggregates, the clock readings of \<open>ComputeTVWAP\<close> and the
  collaborators of the tick are fields of the environment.
\<close>

datatype Fetched = TimedOut | Answer "TickerPrice gomap" "CandlePrice list gomap"

record DecCoin =
  Denom :: string
  Amount :: LegacyDec

type_synonym DecCoins = "DecCoin list"

record MsgAggregateExchangeRateVote =
  ExchangeRates :: string
  Feeder :: string
  Validator :: string

record TxResponse =
  Code :: nat
  TxHash :: string

datatype event =
    Broadcast MsgAggregateExchangeRateVote "error + TxResponse"
  | HttpGet string
  | Warn string

record Env =
  constructorsNow :: "string \<rightharpoonup> error + Provider"
  fetch :: "Provider \<Rightarrow> CurrencyPair list \<Rightarrow> Fetched"
  convertCandlesToUSD ::
    "AggregatedProviderCandles \<Rightarrow> CurrencyPair list gomap \<Rightarrow> LegacyDec gomap \<Rightarrow> error + AggregatedProviderCandles"
  FilterCandleDeviations ::
    "AggregatedProviderCandles \<Rightarrow> LegacyDec gomap \<Rightarrow> error + AggregatedProviderCandles"
  convertTickersToUSD ::
    "AggregatedProviderPrices \<Rightarrow> CurrencyPair list gomap \<Rightarrow> LegacyDec gomap \<Rightarrow> error + AggregatedProviderPrices"
  FilterTickerDeviations ::
    "AggregatedProviderPrices \<Rightarrow> LegacyDec gomap \<Rightarrow> error + AggregatedProviderPrices"
  nowReading :: "64 word"
  timePeriodReading :: "64 word"
  mockNowValue :: "64 word"
  GetCachedJailedState :: "error + bool"
  GetParamCache :: "error + Params"
  ValAddressFromBech32 :: "string \<Rightarrow> error + string"
  NewDecCoinFromDec :: "string \<Rightarrow> LegacyDec \<Rightarrow> panic + DecCoin"
  DecCoins_Add :: "DecCoins \<Rightarrow> DecCoin \<Rightarrow> panic + DecCoins"
  BroadcastTx :: "MsgAggregateExchangeRateVote \<Rightarrow> error + TxResponse"
  clientGet :: "string \<Rightarrow> nat option \<times> error option"

definition Whitelist_Contains :: "Denom list \<Rightarrow> string \<Rightarrow> bool" where
  \<comment> \<open>Modelled from the spec: \<^verbatim>\<open>DenomList.Contains\<close> of the chain's oracle module, which is
      not among the sources; a denomination is in the whitelist when one of its entries
      has that name, the comparison \<open>filterPricesByDenomList\<close> makes.\<close>
  "Whitelist_Contains whitelist denom = list_ex (\<lambda>d. Name d = denom) whitelist"

definition lookupString :: "string gomap \<Rightarrow> string \<Rightarrow> string" where
  \<comment> \<open>\<^verbatim>\<open>m[k]\<close> of a \<^verbatim>\<open>map[string]string\<close>: the empty string for a missing key\<close>
  "lookupString m k = (case map_of m k of None \<Rightarrow> [] | Some v \<Rightarrow> v)"

fun addRequired :: "Oracle \<Rightarrow> CurrencyPair list \<Rightarrow> string list \<Rightarrow> string list" where
  \<comment> \<open>the loop that fills \<open>requiredRates\<close> from the pairs of one provider\<close>
  "addRequired orc [] requiredRates = requiredRates"
| "addRequired orc (pair # rest) requiredRates =
     addRequired orc rest
       (if Base pair \<in> set requiredRates then requiredRates
        else if Whitelist_Contains (Whitelist (paramCache_params orc))
                  (lookupString (chainDenomMapping orc) (Base pair))
             then requiredRates @ [Base pair]
             else requiredRates)"

fun mergePairs ::
  "string \<Rightarrow> TickerPrice gomap \<Rightarrow> CandlePrice list gomap \<Rightarrow> CurrencyPair list \<Rightarrow>
   AggregatedProviderPrices \<times> AggregatedProviderCandles \<Rightarrow>
   AggregatedProviderPrices \<times> AggregatedProviderCandles" where
  \<comment> \<open>the loop under the mutex; it stops at the first pair that is not a success\<close>
  "mergePairs providerName tickers candles [] aggs = aggs"
| "mergePairs providerName tickers candles (pair # rest) (providerPrices, providerCandles) =
     (case SetProviderTickerPricesAndCandles providerName providerPrices providerCandles
             tickers candles pair of
        (success, providerPrices1, providerCandles1) \<Rightarrow>
          if success then
            mergePairs providerName tickers candles rest (providerPrices1, providerCandles1)
          else (providerPrices1, providerCandles1))"

fun collect ::
  "Env \<Rightarrow> CurrencyPair list gomap \<Rightarrow>
   Oracle \<times> string list \<times> AggregatedProviderPrices \<times> AggregatedProviderCandles \<Rightarrow>
   Oracle \<times> string list \<times> AggregatedProviderPrices \<times> AggregatedProviderCandles" where
  \<comment> \<open>the loop over \<open>providerPairs\<close>, each task joined where it was started\<close>
  "collect env [] st = st"
| "collect env ((providerName, currencyPairs) # rest) (orc, requiredRates, providerPrices, providerCandles) =
     (case getOrSetProvider (constructorsNow env) orc providerName of
        (Inl err, orc1, made) \<Rightarrow>
          collect env rest (orc1, requiredRates, providerPrices, providerCandles)
      | (Inr priceProvider, orc1, made) \<Rightarrow>
          (let requiredRates1 = addRequired orc1 currencyPairs requiredRates
           in case fetch env priceProvider currencyPairs of
                TimedOut \<Rightarrow>
                  collect env rest (orc1, requiredRates1, providerPrices, providerCandles)
              | Answer tickers candles \<Rightarrow>
                  (case mergePairs providerName tickers candles currencyPairs
                          (providerPrices, providerCandles) of
                     (providerPrices1, providerCandles1) \<Rightarrow>
                       collect env rest (orc1, requiredRates1, providerPrices1, providerCandles1))))"

fun fillGaps :: "LegacyDec gomap \<Rightarrow> LegacyDec gomap \<Rightarrow> LegacyDec gomap" where
  \<comment> \<open>a VWAP price enters \<open>computedPrices\<close> only under an asset that has no price yet\<close>
  "fillGaps [] computedPrices = computedPrices"
| "fillGaps ((asset, price) # rest) computedPrices =
     fillGaps rest
       (case map_of computedPrices asset of
          None \<Rightarrow> AList.update asset price computedPrices
        | Some _ \<Rightarrow> computedPrices)"

definition GetComputedPrices ::
  "Env \<Rightarrow> AggregatedProviderCandles \<Rightarrow> AggregatedProviderPrices \<Rightarrow> CurrencyPair list gomap \<Rightarrow>
   LegacyDec gomap \<Rightarrow> string list \<Rightarrow> panic + error + LegacyDec gomap" where
  \<comment> \<open>The two coverage maps that are built for the debug log are left out.\<close>
  "GetComputedPrices env providerCandles providerPrices pairs devs requiredRates =
     (case convertCandlesToUSD env providerCandles pairs devs of
        Inl err \<Rightarrow> Inr (Inl err)
      | Inr convertedCandles \<Rightarrow>
          (case FilterCandleDeviations env convertedCandles devs of
             Inl err \<Rightarrow> Inr (Inl err)
           | Inr filteredCandles \<Rightarrow>
               (case ComputeTVWAP (nowReading env) (timePeriodReading env) (mockNowValue env)
                       filteredCandles of
                  Inl p \<Rightarrow> Inl p
                | Inr computedPrices \<Rightarrow>
                    if list_all (\<lambda>asset. map_of computedPrices asset \<noteq> None) requiredRates
                    then Inr (Inr computedPrices)
                    else
                      (case convertTickersToUSD env providerPrices pairs devs of
                         Inl err \<Rightarrow> Inr (Inl err)
                       | Inr convertedTickers \<Rightarrow>
                           (case FilterTickerDeviations env convertedTickers devs of
                              Inl err \<Rightarrow> Inr (Inl err)
                            | Inr filteredProviderPrices \<Rightarrow>
                                (case ComputeVWAP filteredProviderPrices of
                                   Inl p \<Rightarrow> Inl p
                                 | Inr vwapPrices \<Rightarrow>
                                     Inr (Inr (fillGaps vwapPrices computedPrices))))))))"

definition collected ::
  "Env \<Rightarrow> Oracle \<Rightarrow> Oracle \<times> string list \<times> AggregatedProviderPrices \<times> AggregatedProviderCandles" where
  "collected env orc = collect env (providerPairs orc) (orc, [], [], [])"

definition requiredRatesOf :: "Env \<Rightarrow> Oracle \<Rightarrow> string list" where
  \<comment> \<open>\<open>requiredRates\<close> as it stands after the loop over the providers\<close>
  "requiredRatesOf env orc = fst (snd (collected env orc))"

definition computedPricesOf :: "Env \<Rightarrow> Oracle \<Rightarrow> panic + error + LegacyDec gomap" where
  \<comment> \<open>what \<open>GetComputedPrices\<close> returns to \<open>SetPrices\<close>\<close>
  "computedPricesOf env orc =
     (case collected env orc of
        (orc1, requiredRates, providerPrices, providerCandles) \<Rightarrow>
          GetComputedPrices env providerCandles providerPrices (providerPairs orc1)
            (deviations orc1) requiredRates)"

definition SetPrices :: "Env \<Rightarrow> Oracle \<Rightarrow> (panic + error option) \<times> Oracle" where
  "SetPrices env orc =
     (case mockSetPrices orc of
        Some r \<Rightarrow> (Inr r, orc)
      | None \<Rightarrow>
          (case collected env orc of
             (orc1, requiredRates, providerPrices, providerCandles) \<Rightarrow>
               (case GetComputedPrices env providerCandles providerPrices (providerPairs orc1)
                       (deviations orc1) requiredRates of
                  Inl p \<Rightarrow> (Inl p, orc1)
                | Inr (Inl err) \<Rightarrow> (Inr (Some err), orc1)
                | Inr (Inr computedPrices) \<Rightarrow>
                    (case find (\<lambda>base. map_of computedPrices base = None) requiredRates of
                       Some base \<Rightarrow> (Inr (Some (MissingRate base)), orc1)
                     | None \<Rightarrow> (Inr None, orc1\<lparr>prices := computedPrices\<rparr>)))))"

definition whitelisted :: "Oracle \<Rightarrow> CurrencyPair \<Rightarrow> bool" where
  \<comment> \<open>the chain denomination of the pair's base is in the cached whitelist\<close>
  "whitelisted orc pair =
     Whitelist_Contains (Whitelist (paramCache_params orc)) (lookupString (chainDenomMapping orc) (Base pair))"

definition requiredOf :: "Oracle \<Rightarrow> error gomap \<Rightarrow> CurrencyPair list gomap \<Rightarrow> string set" where
  \<comment> \<open>the bases of the pairs of the providers that are not marked failed in \<open>failed\<close>,
      as far as they are whitelisted\<close>
  "requiredOf orc failed ps =
     {Base pair | name pairs pair. (name, pairs) \<in> set ps \<and> pair \<in> set pairs \<and>
        map_of failed name = None \<and> whitelisted orc pair}"

subsection \<open>The vote string\<close>

text \<open>
  \<^verbatim>\<open>sdk.DecCoins\<close> is a slice of coins. \<^verbatim>\<open>DecCoins.Sort\<close> is \<^verbatim>\<open>sort.Sort\<close> with the denominations
  compared as strings; on denominations that are distinct every sorting procedure
  returns the same slice, and on the short slices of at most twelve coins Go runs an
  insertion sort that keeps equal denominations in their order, as \<open>sort_key\<close> does.
  \<^verbatim>\<open>DecCoins.String\<close> joins the coins with commas, each coin its amount followed by its
  denomination, and the amount a decimal with 18 fractional digits.
\<close>

function decimalDigits :: "int \<Rightarrow> string" where
  \<comment> \<open>the decimal digits of an integer that is not negative\<close>
  "decimalDigits n =
     (if n < 10 then [char_of (48 + n)]
      else decimalDigits (n div 10) @ [char_of (48 + n mod 10)])"
  by pat_completeness auto
termination
  by (relation "measure nat") auto

definition LegacyDec_String :: "LegacyDec \<Rightarrow> string" where
  "LegacyDec_String d =
     (let a = \<bar>d\<bar>;
          whole = decimalDigits (a div 10 ^ 18);
          fraction = decimalDigits (a mod 10 ^ 18);
          padded = replicate (18 - length fraction) (CHR ''0'') @ fraction
      in (if d < 0 then ''-'' else []) @ whole @ ''.'' @ padded)"

definition DecCoin_String :: "DecCoin \<Rightarrow> string" where
  "DecCoin_String coin = LegacyDec_String (Amount coin) @ Denom coin"

fun joinCommas :: "string list \<Rightarrow> string" where
  "joinCommas [] = []"
| "joinCommas [s] = s"
| "joinCommas (s # rest) = s @ '','' @ joinCommas rest"

definition DecCoins_String :: "DecCoins \<Rightarrow> string" where
  "DecCoins_String coins = joinCommas (map DecCoin_String coins)"

definition DecCoins_Sort :: "DecCoins \<Rightarrow> DecCoins" where
  "DecCoins_Sort coins = sort_key Denom coins"

definition GenerateExchangeRatesString :: "DecCoins \<Rightarrow> string" where
  "GenerateExchangeRatesString coins = DecCoins_String (DecCoins_Sort coins)"

fun GetPrices_loop :: "Env \<Rightarrow> string gomap \<Rightarrow> LegacyDec gomap \<Rightarrow> DecCoins \<Rightarrow> panic + DecCoins" where
  "GetPrices_loop env chainDenoms [] coins = Inr coins"
| "GetPrices_loop env chainDenoms ((base, price) # rest) coins =
     (case NewDecCoinFromDec env (lookupString chainDenoms base) price of
        Inl p \<Rightarrow> Inl p
      | Inr coin \<Rightarrow>
          (case DecCoins_Add env coins coin of
             Inl p \<Rightarrow> Inl p
           | Inr coins1 \<Rightarrow> GetPrices_loop env chainDenoms rest coins1))"

definition GetPrices :: "Env \<Rightarrow> Oracle \<Rightarrow> panic + DecCoins" where
  "GetPrices env orc = GetPrices_loop env (chainDenomMapping orc) (prices orc) []"

fun filterByDenoms :: "Env \<Rightarrow> DecCoin \<Rightarrow> Denom list \<Rightarrow> DecCoins \<Rightarrow> panic + DecCoins" where
  \<comment> \<open>the inner loop of \<open>filterPricesByDenomList\<close>, over the whitelist\<close>
  "filterByDenoms env c [] result = Inr result"
| "filterByDenoms env c (d # rest) result =
     (if Name d = Denom c then
        (case DecCoins_Add env result c of
           Inl p \<Rightarrow> Inl p
         | Inr result1 \<Rightarrow> filterByDenoms env c rest result1)
      else filterByDenoms env c rest result)"

fun filterPricesByDenomList_loop :: "Env \<Rightarrow> DecCoins \<Rightarrow> Denom list \<Rightarrow> DecCoins \<Rightarrow> panic + DecCoins" where
  "filterPricesByDenomList_loop env [] denomList result = Inr result"
| "filterPricesByDenomList_loop env (c # rest) denomList result =
     (case filterByDenoms env c denomList result of
        Inl p \<Rightarrow> Inl p
      | Inr result1 \<Rightarrow> filterPricesByDenomList_loop env rest denomList result1)"

definition filterPricesByDenomList :: "Env \<Rightarrow> DecCoins \<Rightarrow> Denom list \<Rightarrow> panic + DecCoins" where
  "filterPricesByDenomList env coinPrices denomList =
     filterPricesByDenomList_loop env coinPrices denomList []"

subsection \<open>Health checks\<close>

text \<open>
  \<^verbatim>\<open>client.Get\<close> returns a response and an error; the response is nil when the request
  fails before an answer arrives. The source calls \<^verbatim>\<open>response.Body.Close()\<close> whatever the
  error was, and that dereferences the response.
\<close>

fun healthchecksPing_loop :: "(string \<Rightarrow> nat option \<times> error option) \<Rightarrow> nat gomap \<Rightarrow> panic option \<times> event list" where
  "healthchecksPing_loop get [] = (None, [])"
| "healthchecksPing_loop get ((url, client) # rest) =
     (case get url of
        (response, err) \<Rightarrow>
          (let warned = (case err of None \<Rightarrow> [] | Some _ \<Rightarrow> [Warn ''healthcheck ping failed''])
           in case response of
                None \<Rightarrow> (Some NilPointerDereference, HttpGet url # warned)
              | Some status \<Rightarrow>
                  (case healthchecksPing_loop get rest of
                     (p, evs) \<Rightarrow> (p, HttpGet url # warned @ evs))))"

definition healthchecksPing :: "Env \<Rightarrow> Oracle \<Rightarrow> panic option \<times> event list" where
  "healthchecksPing env orc = healthchecksPing_loop (clientGet env) (healthchecks orc)"

subsection \<open>The tick\<close>

text \<open>
  \<open>currentVotePeriod\<close> is \<^verbatim>\<open>math.Floor(float64(nextBlockHeight) / float64(oracleVotePeriod))\<close>.
  For heights below \<open>2^53\<close> the quotient of the two floats floors to the floor of the
  exact quotient; a vote period of zero gives an infinity (the next height is never
  zero). The jail state and the parameters come from two caches that are not among the
  sources: the environment holds what each returns at this height, and the parameters
  returned are the ones the cache holds afterwards.
\<close>

definition floorQuotient :: "int \<Rightarrow> int \<Rightarrow> float64" where
  "floorQuotient a b = (if b = 0 then (if 0 < a then PosInf else NegInf) else Finite (a div b))"

definition currentVotePeriodOf :: "64 word \<Rightarrow> Params \<Rightarrow> float64" where
  "currentVotePeriodOf blockHeight oracleParams =
     (let oracleVotePeriod = sint (VotePeriod oracleParams);
          nextBlockHeight = blockHeight + 1
      in floorQuotient (sint nextBlockHeight) oracleVotePeriod)"

definition castVote ::
  "Env \<Rightarrow> Oracle \<Rightarrow> Params \<Rightarrow> float64 \<Rightarrow> (panic + error option) \<times> Oracle \<times> event list" where
  \<comment> \<open>the tick from \<^verbatim>\<open>sdk.ValAddressFromBech32\<close> on, reached in a new vote period\<close>
  "castVote env orc oracleParams currentVotePeriod =
     (case ValAddressFromBech32 env (ValidatorAddrString orc) of
        Inl err \<Rightarrow> (Inr (Some err), orc, [])
      | Inr valAddr \<Rightarrow>
          (case GetPrices env orc of
             Inl p \<Rightarrow> (Inl p, orc, [])
           | Inr coins \<Rightarrow>
               (case filterPricesByDenomList env coins (Whitelist oracleParams) of
                  Inl p \<Rightarrow> (Inl p, orc, [])
                | Inr filteredPrices \<Rightarrow>
                    (let exchangeRatesStr = GenerateExchangeRatesString filteredPrices;
                         voteMsg = \<lparr>ExchangeRates = exchangeRatesStr,
                                    Feeder = OracleAddrString orc,
                                    Validator = valAddr\<rparr>
                     in case BroadcastTx env voteMsg of
                          Inl err \<Rightarrow> (Inr (Some err), orc, [Broadcast voteMsg (Inl err)])
                        | Inr resp \<Rightarrow>
                            (let orc1 = orc\<lparr>previousVotePeriod := currentVotePeriod\<rparr>
                             in case healthchecksPing env orc1 of
                                  (Some p, evs) \<Rightarrow> (Inl p, orc1, Broadcast voteMsg (Inr resp) # evs)
                                | (None, evs) \<Rightarrow> (Inr None, orc1, Broadcast voteMsg (Inr resp) # evs))))))"

definition tick :: "Env \<Rightarrow> Oracle \<Rightarrow> 64 word \<Rightarrow> (panic + error option) \<times> Oracle \<times> event list" where
  \<comment> \<open>Modelled from the spec: \<open>GetParamCache\<close> is not among the sources; the parameters it
      returns are the ones the cache holds, which \<open>SetPrices\<close> reads.\<close>
  "tick env orc blockHeight =
     (if sint blockHeight < 1 then (Inr (Some ExpectedPositiveBlockHeight), orc, [])
      else
        (case GetCachedJailedState env of
           Inl err \<Rightarrow> (Inr (Some err), orc, [])
         | Inr isJailed \<Rightarrow>
             if isJailed then (Inr (Some (ValidatorJailed (ValidatorAddrString orc))), orc, [])
             else
               (case GetParamCache env of
                  Inl err \<Rightarrow> (Inr (Some err), orc, [])
                | Inr oracleParams \<Rightarrow>
                    (case SetPrices env (orc\<lparr>paramCache_params := oracleParams\<rparr>) of
                       (Inl p, orc1) \<Rightarrow> (Inl p, orc1, [])
                     | (Inr (Some err), orc1) \<Rightarrow> (Inr (Some err), orc1, [])
                     | (Inr None, orc1) \<Rightarrow>
                         (let currentVotePeriod = currentVotePeriodOf blockHeight oracleParams
                          in if currentVotePeriod = previousVotePeriod orc1 then (Inr None, orc1, [])
                             else castVote env orc1 oracleParams currentVotePeriod)))))"

definition broadcastSucceeded :: "event list \<Rightarrow> bool" where
  \<comment> \<open>the tick sent a vote and \<open>BroadcastTx\<close> returned a response with no error\<close>
  "broadcastSucceeded evs = list_ex (\<lambda>ev. case ev of Broadcast msg (Inr resp) \<Rightarrow> True | _ \<Rightarrow> False) evs"

subsection \<open>A concrete oracle and environment\<close>

definition oracle_example :: Oracle where
  \<comment> \<open>an oracle as \<open>New\<close> makes it, configured with ATOM on kraken and KII on okx\<close>
  "oracle_example =
     \<lparr>providerPairs =
        [(''kraken'', [\<lparr>Base = ''ATOM'', Quote = ''USDT''\<rparr>]),
         (''okx'', [\<lparr>Base = ''KII'', Quote = ''USDT''\<rparr>])],
      chainDenomMapping = [(''ATOM'', ''uatom''), (''KII'', ''ukii'')],
      previousVotePeriod = Finite 0,
      priceProviders = [],
      failedProviders = [],
      deviations = [],
      prices = [],
      paramCache_params = \<lparr>VotePeriod = 10, Whitelist = [\<lparr>Name = ''uatom''\<rparr>, \<lparr>Name = ''ukii''\<rparr>]\<rparr>,
      healthchecks = [(''https://hc-ping.com/HEALTHCHECK-UUID'', 200)],
      mockSetPrices = None,
      ValidatorAddrString = ''kiivaloper1'',
      OracleAddrString = ''kii1''\<rparr>"

definition env_example :: Env where
  \<comment> \<open>the constructor of okx fails; kraken answers with a ticker for ATOMUSDT and no
      candles; nothing is converted or filtered away; the chain and the health check
      answer\<close>
  "env_example =
     \<lparr>constructorsNow =
        [''kraken'' \<mapsto> Inr (Provider ''kraken''),
         ''okx'' \<mapsto> Inl (External ''websocket dial failed'')],
      fetch = (\<lambda>p pairs.
        Answer [(''ATOMUSDT'', \<lparr>Price = LegacyNewDec 10, Volume = LegacyNewDec 100\<rparr>)] []),
      convertCandlesToUSD = (\<lambda>c pairs devs. Inr c),
      FilterCandleDeviations = (\<lambda>c devs. Inr c),
      convertTickersToUSD = (\<lambda>t pairs devs. Inr t),
      FilterTickerDeviations = (\<lambda>t devs. Inr t),
      nowReading = 1000000,
      timePeriodReading = 700000,
      mockNowValue = 0,
      GetCachedJailedState = Inr False,
      GetParamCache = Inr \<lparr>VotePeriod = 10, Whitelist = [\<lparr>Name = ''uatom''\<rparr>, \<lparr>Name = ''ukii''\<rparr>]\<rparr>,
      ValAddressFromBech32 = (\<lambda>s. Inr s),
      NewDecCoinFromDec = (\<lambda>d a. Inr \<lparr>Denom = d, Amount = a\<rparr>),
      DecCoins_Add = (\<lambda>coins c. Inr (insort_key Denom c coins)),
      BroadcastTx = (\<lambda>msg. Inr \<lparr>Code = 0, TxHash = ''AB12''\<rparr>),
      clientGet = (\<lambda>url. (Some 200, None))\<rparr>"

definition env_unreachable :: Env where
  \<comment> \<open>the same environment with a health check URL that does not answer\<close>
  "env_unreachable = env_example\<lparr>clientGet := (\<lambda>url. (None, Some (External ''connection refused'')))\<rparr>"

definition calls_example :: "((string \<rightharpoonup> error + Provider) \<times> string) list" where
  \<comment> \<open>kraken is made at the first call; okx fails at its first call and would be made
      at its second\<close>
  "calls_example =
     [([''kraken'' \<mapsto> Inr (Provider ''kraken''), ''okx'' \<mapsto> Inl (External ''dial'')], ''kraken''),
      ([''kraken'' \<mapsto> Inr (Provider ''kraken''), ''okx'' \<mapsto> Inl (External ''dial'')], ''okx''),
      ([''kraken'' \<mapsto> Inl (External ''dial''), ''okx'' \<mapsto> Inr (Provider ''okx'')], ''kraken''),
      ([''kraken'' \<mapsto> Inl (External ''dial''), ''okx'' \<mapsto> Inr (Provider ''okx'')], ''okx'')]"

section \<open>Properties of the decimals and of VWAP\<close>
















lemma map_of_ensureZero:
  "map_of (ensureZero m b) k = (if k = b \<and> map_of m k = None then Some LegacyZeroDec else map_of m k)"
  by (auto simp: ensureZero_def update_conv' split: option.splits)


lemma map_of_addAt:
  "map_of (addAt m b x) k = (if k = b then Some (getDec m b + x) else map_of m k)"
  by (simp add: addAt_def update_conv' Add_def)


lemma distinct_ensureZero: "distinct (map fst m) \<Longrightarrow> distinct (map fst (ensureZero m b))"
  by (simp add: ensureZero_def distinct_update split: option.splits)

lemma distinct_addAt: "distinct (map fst m) \<Longrightarrow> distinct (map fst (addAt m b x))"
  by (simp add: addAt_def distinct_update)





lemma vwap_tickers_volume_distinct:
  "distinct (map fst vs) \<Longrightarrow> distinct (map fst (snd (vwap_tickers pm (wp, vs))))"
proof (induction pm arbitrary: wp vs)
  case Nil
  then show ?case by simp
next
  case (Cons a pm)
  obtain b tp where a: "a = (b, tp)" by (cases a)
  show ?case
    by (simp add: a Let_def Cons distinct_addAt distinct_ensureZero)
qed






lemma getDec_Some: "map_of m B = Some d \<Longrightarrow> getDec m B = d"
  by (simp add: getDec_def)
















section \<open>Properties of TVWAP\<close>


lemma accInv_ensure: "accInv (wp, vs) \<Longrightarrow> accInv (ensureZero wp b, ensureZero vs b)"
  by (simp add: accInv_def distinct_ensureZero map_of_ensureZero)

lemma accInv_add: "accInv (wp, vs) \<Longrightarrow> accInv (addAt wp b x, addAt vs b y)"
  by (simp add: accInv_def distinct_addAt map_of_addAt)

lemma tvwap_candles_inv:
  "accInv acc \<Longrightarrow> accInv (tvwap_candles now tp period wu base cp acc)"
proof (induction cp arbitrary: acc)
  case Nil
  then show ?case by simp
next
  case (Cons c cp)
  obtain wp vs where acc: "acc = (wp, vs)" by (cases acc)
  show ?case using Cons.prems
    by (auto simp: acc Let_def intro!: Cons.IH accInv_add)
qed

lemma weightUnitOf_total: "\<exists>w. weightUnitOf period = Inr w"
  by (simp add: weightUnitOf_def Let_def Quo_def LegacyZeroDec_def)

lemma sort_key_Nil_iff: "sort_key f xs = [] \<longleftrightarrow> xs = []"
  by (metis length_sort list.size(3) length_0_conv)

lemma tvwap_base_empty: "tvwap_base now tp base [] acc = Inl IndexOutOfRange"
  by (simp add: tvwap_base_def)

lemma tvwap_base_nonempty:
  assumes "cp \<noteq> []"
  shows "\<exists>acc'. tvwap_base now tp base cp acc = Inr acc' \<and> (accInv acc \<longrightarrow> accInv acc')"
proof -
  obtain wp vs where acc: "acc = (wp, vs)" by (cases acc)
  from assms obtain oldest rest where s: "sort_key (\<lambda>c. sint (TimeStamp c)) cp = oldest # rest"
    by (cases "sort_key (\<lambda>c. sint (TimeStamp c)) cp") (simp_all add: sort_key_Nil_iff)
  obtain w where w: "weightUnitOf (LegacyNewDec (sint (now - TimeStamp oldest))) = Inr w"
    using weightUnitOf_total by blast
  show ?thesis
    by (simp add: tvwap_base_def acc s w Let_def tvwap_candles_inv accInv_ensure
        del: tvwap_candles.simps)
qed

lemma tvwap_bases_empty:
  "list_ex (\<lambda>bc. snd bc = []) pm \<Longrightarrow> tvwap_bases now tp pm acc = Inl IndexOutOfRange"
proof (induction pm arbitrary: acc)
  case Nil
  then show ?case by simp
next
  case (Cons a pm)
  obtain base cp where a: "a = (base, cp)" by (cases a)
  show ?case
  proof (cases "cp = []")
    case True
    then show ?thesis by (simp add: a tvwap_base_empty)
  next
    case False
    then obtain acc' where "tvwap_base now tp base cp acc = Inr acc'"
      using tvwap_base_nonempty by blast
    moreover have "list_ex (\<lambda>bc. snd bc = []) pm" using Cons.prems False by (simp add: a)
    ultimately show ?thesis by (simp add: a Cons.IH)
  qed
qed

lemma tvwap_bases_nonempty:
  "\<not> list_ex (\<lambda>bc. snd bc = []) pm \<Longrightarrow>
   \<exists>acc'. tvwap_bases now tp pm acc = Inr acc' \<and> (accInv acc \<longrightarrow> accInv acc')"
proof (induction pm arbitrary: acc)
  case Nil
  then show ?case by simp
next
  case (Cons a pm)
  obtain base cp where a: "a = (base, cp)" by (cases a)
  from Cons.prems have ne: "cp \<noteq> []" and rest: "\<not> list_ex (\<lambda>bc. snd bc = []) pm"
    by (simp_all add: a)
  from tvwap_base_nonempty [OF ne] obtain acc1 where
    s: "tvwap_base now tp base cp acc = Inr acc1" and i: "accInv acc \<longrightarrow> accInv acc1" by blast
  from Cons.IH [OF rest, of acc1] obtain acc' where
    "tvwap_bases now tp pm acc1 = Inr acc'" "accInv acc1 \<longrightarrow> accInv acc'" by blast
  with s i show ?case by (simp add: a)
qed

lemma tvwap_bases_panic:
  "tvwap_bases now tp pm acc = Inl e \<Longrightarrow> e = IndexOutOfRange"
  using tvwap_bases_empty [of pm now tp acc] tvwap_bases_nonempty [of pm now tp acc]
  by auto














section \<open>Properties of the collection step\<close>

lemma map_of_ensureMap:
  "map_of (ensureMap m name) k = (if k = name \<and> map_of m k = None then Some [] else map_of m k)"
  by (auto simp: ensureMap_def update_conv' split: option.splits)





section \<open>Properties of the standard deviation\<close>










section \<open>Properties of the provider cache\<close>

lemma getOrSetProvider_settled:
  "settled orc n r \<Longrightarrow> getOrSetProvider c orc n = (r, orc, [])"
  by (auto simp: settled_def getOrSetProvider_def split: option.splits)

lemma getOrSetProvider_keeps_settled:
  assumes "settled orc n r" "getOrSetProvider c orc m = (r', orc1, made)"
  shows "settled orc1 n r"
proof (cases "settled orc m r'")
  case True
  then show ?thesis using assms getOrSetProvider_settled [of orc m r' c] by simp
next
  case False
  then have "m \<noteq> n \<or> r' \<noteq> r" using assms(1) by auto
  show ?thesis
    using assms False
    by (auto simp: settled_def getOrSetProvider_def update_conv' split: option.splits sum.splits if_splits)
qed

lemma getOrSetProvider_settles:
  assumes "getOrSetProvider c orc n = (r, orc1, made)"
  shows "\<exists>r'. settled orc1 n r' \<and>
           (case r of Inr p \<Rightarrow> r' = Inr p | Inl e \<Rightarrow> (\<exists>e0. r' = Inl (FailedAtFirstInit e0)))"
  using assms
  by (auto simp: settled_def getOrSetProvider_def update_conv' split: option.splits sum.splits)

lemma getOrSetProvider_made:
  assumes "getOrSetProvider c orc n = (r, orc1, made)"
  shows "(made = [] \<or> (made = [n] \<and> \<not> known orc n)) \<and> known orc1 n \<and>
         (\<forall>m. known orc m \<longrightarrow> known orc1 m)"
  using assms
  by (auto simp: known_def getOrSetProvider_def update_conv' split: option.splits sum.splits if_splits)

lemma providerCalls_length:
  "providerCalls calls orc = (rs, orc', made) \<Longrightarrow> length rs = length calls"
proof (induction calls arbitrary: orc rs made orc')
  case Nil
  then show ?case by simp
next
  case (Cons a calls)
  obtain c n where a: "a = (c, n)" by (cases a)
  obtain r orc1 made1 where s: "getOrSetProvider c orc n = (r, orc1, made1)"
    by (cases "getOrSetProvider c orc n")
  obtain rs2 orc2 made2 where t: "providerCalls calls orc1 = (rs2, orc2, made2)"
    by (cases "providerCalls calls orc1")
  from Cons.prems have "rs = r # rs2" by (simp add: a s t)
  with Cons.IH [OF t] show ?case by simp
qed

lemma providerCalls_made:
  "providerCalls calls orc = (rs, orc', made) \<Longrightarrow>
     distinct made \<and> (\<forall>m \<in> set made. \<not> known orc m) \<and> (\<forall>m. known orc m \<longrightarrow> known orc' m)"
proof (induction calls arbitrary: orc rs made orc')
  case Nil
  then show ?case by simp
next
  case (Cons a calls)
  obtain c n where a: "a = (c, n)" by (cases a)
  obtain r orc1 made1 where s: "getOrSetProvider c orc n = (r, orc1, made1)"
    by (cases "getOrSetProvider c orc n")
  obtain rs2 orc2 made2 where t: "providerCalls calls orc1 = (rs2, orc2, made2)"
    by (cases "providerCalls calls orc1")
  from Cons.prems have m: "made = made1 @ made2" and o: "orc' = orc2" by (simp_all add: a s t)
  from getOrSetProvider_made [OF s] have
    m1: "made1 = [] \<or> (made1 = [n] \<and> \<not> known orc n)" and k1: "known orc1 n"
    and mono1: "\<And>m. known orc m \<Longrightarrow> known orc1 m" by blast+
  from Cons.IH [OF t] have d2: "distinct made2" and f2: "\<And>m. m \<in> set made2 \<Longrightarrow> \<not> known orc1 m"
    and mono2: "\<And>m. known orc1 m \<Longrightarrow> known orc2 m" by blast+
  have "n \<notin> set made2" using f2 k1 by blast
  with m1 d2 have "distinct made" by (auto simp: m)
  moreover have "\<forall>m \<in> set made. \<not> known orc m"
    using m1 f2 mono1 by (auto simp: m)
  moreover have "\<forall>m. known orc m \<longrightarrow> known orc' m"
    using mono1 mono2 by (simp add: o)
  ultimately show ?case by blast
qed

lemma settled_known: "settled orc n r \<Longrightarrow> known orc n"
  by (auto simp: settled_def known_def split: option.splits)

lemma providerCalls_settled:
  "settled orc n r \<Longrightarrow> providerCalls calls orc = (rs, orc', made) \<Longrightarrow>
     (\<forall>j < length calls. snd (calls ! j) = n \<longrightarrow> rs ! j = r) \<and> n \<notin> set made"
proof (induction calls arbitrary: orc rs made orc')
  case Nil
  then show ?case by simp
next
  case (Cons a calls)
  obtain c m where a: "a = (c, m)" by (cases a)
  obtain r1 orc1 made1 where s: "getOrSetProvider c orc m = (r1, orc1, made1)"
    by (cases "getOrSetProvider c orc m")
  obtain rs2 orc2 made2 where t: "providerCalls calls orc1 = (rs2, orc2, made2)"
    by (cases "providerCalls calls orc1")
  from Cons.prems(2) have rs: "rs = r1 # rs2" and m: "made = made1 @ made2" by (simp_all add: a s t)
  have st1: "settled orc1 n r" using getOrSetProvider_keeps_settled [OF Cons.prems(1) s] .
  from Cons.IH [OF st1 t] have later: "\<And>j. j < length calls \<Longrightarrow> snd (calls ! j) = n \<Longrightarrow> rs2 ! j = r"
    and nm2: "n \<notin> set made2" by blast+
  have head: "m = n \<Longrightarrow> r1 = r \<and> made1 = []"
    using getOrSetProvider_settled [OF Cons.prems(1), of c] s by simp
  have nm1: "n \<notin> set made1"
    using getOrSetProvider_made [OF s] settled_known [OF Cons.prems(1)] by auto
  have "\<forall>j < length (a # calls). snd ((a # calls) ! j) = n \<longrightarrow> rs ! j = r"
  proof (intro allI impI)
    fix j assume j: "j < length (a # calls)" and n: "snd ((a # calls) ! j) = n"
    show "rs ! j = r"
    proof (cases j)
      case 0
      with n head show ?thesis by (simp add: a rs)
    next
      case (Suc k)
      with j n later [of k] show ?thesis by (simp add: rs)
    qed
  qed
  with nm1 nm2 show ?case by (simp add: m)
qed

lemma getOrSetProvider_once_aux:
  assumes "providerCalls calls orc = (rs, orc', made)"
  shows "distinct made \<and> length rs = length calls \<and>
         (\<forall>i j. i < j \<and> j < length calls \<and> snd (calls ! i) = snd (calls ! j) \<longrightarrow>
            (case rs ! i of
               Inr p \<Rightarrow> rs ! j = Inr p
             | Inl e \<Rightarrow> (\<exists>e0. rs ! j = Inl (FailedAtFirstInit e0))))"
proof -
  have later: "\<forall>i j. i < j \<and> j < length calls \<and> snd (calls ! i) = snd (calls ! j) \<longrightarrow>
            (case rs ! i of
               Inr p \<Rightarrow> rs ! j = Inr p
             | Inl e \<Rightarrow> (\<exists>e0. rs ! j = Inl (FailedAtFirstInit e0)))"
    using assms
  proof (induction calls arbitrary: orc rs made orc')
    case Nil
    then show ?case by simp
  next
    case (Cons a calls)
    obtain c n where a: "a = (c, n)" by (cases a)
    obtain r orc1 made1 where s: "getOrSetProvider c orc n = (r, orc1, made1)"
      by (cases "getOrSetProvider c orc n")
    obtain rs2 orc2 made2 where t: "providerCalls calls orc1 = (rs2, orc2, made2)"
      by (cases "providerCalls calls orc1")
    from Cons.prems have rs: "rs = r # rs2" by (simp add: a s t)
    from getOrSetProvider_settles [OF s] obtain r' where st: "settled orc1 n r'"
      and rel: "case r of Inr p \<Rightarrow> r' = Inr p | Inl e \<Rightarrow> (\<exists>e0. r' = Inl (FailedAtFirstInit e0))"
      by blast
    from providerCalls_settled [OF st t]
    have fromhead: "\<And>k. k < length calls \<Longrightarrow> snd (calls ! k) = n \<Longrightarrow> rs2 ! k = r'" by blast
    show ?case
    proof (intro allI impI)
      fix i j
      assume h: "i < j \<and> j < length (a # calls) \<and> snd ((a # calls) ! i) = snd ((a # calls) ! j)"
      then obtain k where j: "j = Suc k" by (cases j) auto
      show "case rs ! i of
               Inr p \<Rightarrow> rs ! j = Inr p
             | Inl e \<Rightarrow> (\<exists>e0. rs ! j = Inl (FailedAtFirstInit e0))"
      proof (cases i)
        case 0
        with h j have "k < length calls" "snd (calls ! k) = n" by (simp_all add: a)
        then have "rs2 ! k = r'" by (rule fromhead)
        with rel show ?thesis by (simp add: 0 j rs split: sum.splits)
      next
        case (Suc i')
        with h j have "i' < k \<and> k < length calls \<and> snd (calls ! i') = snd (calls ! k)" by simp
        with Cons.IH [OF t] have "case rs2 ! i' of
               Inr p \<Rightarrow> rs2 ! k = Inr p
             | Inl e \<Rightarrow> (\<exists>e0. rs2 ! k = Inl (FailedAtFirstInit e0))" by blast
        then show ?thesis by (simp add: Suc j rs cong: sum.case_cong)
      qed
    qed
  qed
  from providerCalls_made [OF assms] providerCalls_length [OF assms] later
  show ?thesis by blast
qed

section \<open>Properties of the collection loop\<close>

lemma requiredOf_Nil: "requiredOf orc failed [] = {}"
  by (simp add: requiredOf_def)

lemma requiredOf_Cons:
  "requiredOf orc failed ((name, pairs) # ps) =
     (if map_of failed name = None then {Base pair | pair. pair \<in> set pairs \<and> whitelisted orc pair} else {})
     \<union> requiredOf orc failed ps"
  unfolding requiredOf_def by auto

lemma addRequired_set:
  "set (addRequired orc pairs req) = set req \<union> {Base pair | pair. pair \<in> set pairs \<and> whitelisted orc pair}"
proof (induction pairs arbitrary: req)
  case Nil
  then show ?case by simp
next
  case (Cons pair pairs)
  show ?case
    by (auto simp: Cons.IH whitelisted_def)
qed

lemma getOrSetProvider_frame:
  assumes "getOrSetProvider c orc n = (r, orc1, made)"
  shows "paramCache_params orc1 = paramCache_params orc \<and> chainDenomMapping orc1 = chainDenomMapping orc \<and>
         prices orc1 = prices orc \<and> providerPairs orc1 = providerPairs orc \<and>
         deviations orc1 = deviations orc \<and> previousVotePeriod orc1 = previousVotePeriod orc \<and>
         mockSetPrices orc1 = mockSetPrices orc \<and> healthchecks orc1 = healthchecks orc"
  using assms
  by (auto simp: getOrSetProvider_def split: option.splits sum.splits)

lemma whitelisted_frame:
  "getOrSetProvider c orc n = (r, orc1, made) \<Longrightarrow> whitelisted orc1 = whitelisted orc"
  using getOrSetProvider_frame [of c orc n r orc1 made] by (auto simp: whitelisted_def fun_eq_iff)

lemma addRequired_frame:
  "getOrSetProvider c orc n = (r, orc1, made) \<Longrightarrow> addRequired orc1 pairs req = addRequired orc pairs req"
  using getOrSetProvider_frame [of c orc n r orc1 made]
  by (induction pairs arbitrary: req) simp_all

lemma settled_Inr: "settled orc n (Inr p) \<Longrightarrow> map_of (failedProviders orc) n = None"
  by (auto simp: settled_def split: option.splits)

lemma settled_Inl: "settled orc n (Inl e) \<Longrightarrow> map_of (failedProviders orc) n \<noteq> None"
  by (auto simp: settled_def split: option.splits)

lemma collect_result:
  assumes "collect env ps (orc, req, pp, pc) = (orc', req', pp', pc')"
  shows "(\<forall>n r. settled orc n r \<longrightarrow> settled orc' n r) \<and>
         paramCache_params orc' = paramCache_params orc \<and> chainDenomMapping orc' = chainDenomMapping orc \<and>
         prices orc' = prices orc \<and> providerPairs orc' = providerPairs orc \<and>
         deviations orc' = deviations orc \<and> previousVotePeriod orc' = previousVotePeriod orc \<and>
         mockSetPrices orc' = mockSetPrices orc \<and> healthchecks orc' = healthchecks orc \<and>
         set req' = set req \<union> requiredOf orc (failedProviders orc') ps"
  using assms
proof (induction ps arbitrary: orc req pp pc)
  case Nil
  then show ?case by (simp add: requiredOf_Nil)
next
  case (Cons a ps)
  obtain name pairs where a: "a = (name, pairs)" by (cases a)
  obtain r orc1 made where s: "getOrSetProvider (constructorsNow env) orc name = (r, orc1, made)"
    by (cases "getOrSetProvider (constructorsNow env) orc name")
  note fr = getOrSetProvider_frame [OF s]
  have keep1: "\<And>n r. settled orc n r \<Longrightarrow> settled orc1 n r"
    using getOrSetProvider_keeps_settled [OF _ s] by blast
  from getOrSetProvider_settles [OF s] obtain r' where st: "settled orc1 name r'"
    and rel: "case r of Inr p \<Rightarrow> r' = Inr p | Inl e \<Rightarrow> (\<exists>e0. r' = Inl (FailedAtFirstInit e0))"
    by blast
  have w: "whitelisted orc1 = whitelisted orc" using whitelisted_frame [OF s] .
  show ?case
  proof (cases r)
    case (Inl err)
    from Cons.prems have rest: "collect env ps (orc1, req, pp, pc) = (orc', req', pp', pc')"
      by (simp add: a s Inl)
    note ih = Cons.IH [OF rest]
    from rel Inl obtain e0 where "r' = Inl (FailedAtFirstInit e0)" by auto
    with st ih have "settled orc' name (Inl (FailedAtFirstInit e0))" by blast
    then have "map_of (failedProviders orc') name \<noteq> None" by (rule settled_Inl)
    then obtain y where failed: "map_of (failedProviders orc') name = Some y" by auto
    have w': "requiredOf orc1 = requiredOf orc" using w by (simp add: requiredOf_def fun_eq_iff)
    have "set req' = set req \<union> requiredOf orc (failedProviders orc') (a # ps)"
      using ih failed by (simp add: a w' requiredOf_Cons)
    with ih fr keep1 show ?thesis by simp
  next
    case (Inr priceProvider)
    let ?req1 = "addRequired orc1 pairs req"
    have "\<exists>pp1 pc1. collect env ps (orc1, ?req1, pp1, pc1) = (orc', req', pp', pc')"
    proof (cases "fetch env priceProvider pairs")
      case TimedOut
      with Cons.prems show ?thesis by (auto simp: a s Inr Let_def)
    next
      case (Answer tickers candles)
      obtain pp1 pc1 where "mergePairs name tickers candles pairs (pp, pc) = (pp1, pc1)"
        by (cases "mergePairs name tickers candles pairs (pp, pc)")
      with Cons.prems Answer show ?thesis by (auto simp: a s Inr Let_def)
    qed
    then obtain pp1 pc1 where rest: "collect env ps (orc1, ?req1, pp1, pc1) = (orc', req', pp', pc')"
      by blast
    note ih = Cons.IH [OF rest]
    from rel Inr have "r' = Inr priceProvider" by simp
    with st ih have "settled orc' name (Inr priceProvider)" by blast
    then have ok: "map_of (failedProviders orc') name = None" by (rule settled_Inr)
    have w': "requiredOf orc1 = requiredOf orc" using w by (simp add: requiredOf_def fun_eq_iff)
    have "set ?req1 = set req \<union> {Base pair | pair. pair \<in> set pairs \<and> whitelisted orc pair}"
      by (simp add: addRequired_set w)
    then have "set req' = set req \<union> requiredOf orc (failedProviders orc') (a # ps)"
      using ih ok by (simp add: a w' requiredOf_Cons Un_assoc)
    with ih fr keep1 show ?thesis by simp
  qed
qed

section \<open>Properties of SetPrices\<close>

lemma collected_result:
  assumes "collected env orc = (orc1, req, pp, pc)"
  shows "paramCache_params orc1 = paramCache_params orc \<and> chainDenomMapping orc1 = chainDenomMapping orc \<and>
         prices orc1 = prices orc \<and> providerPairs orc1 = providerPairs orc \<and>
         deviations orc1 = deviations orc \<and> previousVotePeriod orc1 = previousVotePeriod orc \<and>
         set req = requiredOf orc (failedProviders orc1) (providerPairs orc)"
  using collect_result [of env "providerPairs orc" orc "[]" "[]" "[]" orc1 req pp pc] assms
  by (simp add: collected_def)

lemma SetPrices_cases:
  assumes "mockSetPrices orc = None" "collected env orc = (orc1, req, pp, pc)"
  shows "SetPrices env orc =
     (case computedPricesOf env orc of
        Inl p \<Rightarrow> (Inl p, orc1)
      | Inr (Inl err) \<Rightarrow> (Inr (Some err), orc1)
      | Inr (Inr computedPrices) \<Rightarrow>
          (case find (\<lambda>base. map_of computedPrices base = None) req of
             Some base \<Rightarrow> (Inr (Some (MissingRate base)), orc1)
           | None \<Rightarrow> (Inr None, orc1\<lparr>prices := computedPrices\<rparr>)))"
  using assms by (simp add: SetPrices_def computedPricesOf_def)

lemma find_None_list_ex: "(find P xs = None) = (\<not> list_ex P xs)"
  by (induction xs) simp_all

lemma find_Some_list_ex: "find P xs = Some x \<Longrightarrow> list_ex P xs"
  using find_None_list_ex [of P xs] by auto

lemma SetPrices_properties:
  assumes "mockSetPrices orc = None"
  shows "set (requiredRatesOf env orc) =
           {Base pair | name pairs pair.
              (name, pairs) \<in> set (providerPairs orc) \<and> pair \<in> set pairs \<and>
              map_of (failedProviders (snd (SetPrices env orc))) name = None \<and>
              Whitelist_Contains (Whitelist (paramCache_params orc))
                (lookupString (chainDenomMapping orc) (Base pair))} \<and>
         ((\<exists>err. fst (SetPrices env orc) = Inr (Some err)) =
            ((\<exists>err. computedPricesOf env orc = Inr (Inl err)) \<or>
             (\<exists>computedPrices. computedPricesOf env orc = Inr (Inr computedPrices) \<and>
                list_ex (\<lambda>base. map_of computedPrices base = None) (requiredRatesOf env orc)))) \<and>
         (fst (SetPrices env orc) \<noteq> Inr None \<longrightarrow> prices (snd (SetPrices env orc)) = prices orc) \<and>
         (fst (SetPrices env orc) = Inr None \<longrightarrow>
            computedPricesOf env orc = Inr (Inr (prices (snd (SetPrices env orc)))))"
proof -
  obtain orc1 req pp pc where c: "collected env orc = (orc1, req, pp, pc)"
    by (cases "collected env orc") auto
  note fr = collected_result [OF c]
  note sp = SetPrices_cases [OF assms c]
  have rq: "requiredRatesOf env orc = req" by (simp add: requiredRatesOf_def c)
  have failed: "failedProviders (snd (SetPrices env orc)) = failedProviders orc1"
    by (simp add: sp split: sum.splits option.splits)
  have 1: "set (requiredRatesOf env orc) =
           {Base pair | name pairs pair.
              (name, pairs) \<in> set (providerPairs orc) \<and> pair \<in> set pairs \<and>
              map_of (failedProviders (snd (SetPrices env orc))) name = None \<and>
              Whitelist_Contains (Whitelist (paramCache_params orc))
                (lookupString (chainDenomMapping orc) (Base pair))}"
    using fr by (simp add: rq failed requiredOf_def whitelisted_def)
  have 2: "(\<exists>err. fst (SetPrices env orc) = Inr (Some err)) =
            ((\<exists>err. computedPricesOf env orc = Inr (Inl err)) \<or>
             (\<exists>computedPrices. computedPricesOf env orc = Inr (Inr computedPrices) \<and>
                list_ex (\<lambda>base. map_of computedPrices base = None) (requiredRatesOf env orc)))"
    by (auto simp: sp rq find_None_list_ex split: sum.splits option.splits dest: find_Some_list_ex)
  have 3: "fst (SetPrices env orc) \<noteq> Inr None \<longrightarrow> prices (snd (SetPrices env orc)) = prices orc"
    using fr by (auto simp: sp split: sum.splits option.splits)
  have 4: "fst (SetPrices env orc) = Inr None \<longrightarrow>
            computedPricesOf env orc = Inr (Inr (prices (snd (SetPrices env orc))))"
    by (auto simp: sp split: sum.splits option.splits)
  from 1 2 3 4 show ?thesis by blast
qed


section \<open>Properties of the tick\<close>

lemma broadcastSucceeded_Cons:
  "broadcastSucceeded (ev # evs) =
     ((case ev of Broadcast msg (Inr resp) \<Rightarrow> True | _ \<Rightarrow> False) \<or> broadcastSucceeded evs)"
  by (simp add: broadcastSucceeded_def)

lemma broadcastSucceeded_append:
  "broadcastSucceeded (xs @ ys) = (broadcastSucceeded xs \<or> broadcastSucceeded ys)"
  by (simp add: broadcastSucceeded_def)

lemma healthchecksPing_loop_events:
  "healthchecksPing_loop get hs = (p, evs) \<Longrightarrow> \<not> broadcastSucceeded evs"
proof (induction hs arbitrary: p evs)
  case Nil
  then show ?case by (simp add: broadcastSucceeded_def)
next
  case (Cons a hs)
  obtain url client where a: "a = (url, client)" by (cases a)
  obtain response err where g: "get url = (response, err)" by (cases "get url")
  obtain p2 evs2 where r: "healthchecksPing_loop get hs = (p2, evs2)"
    by (cases "healthchecksPing_loop get hs")
  have w: "\<not> broadcastSucceeded (case err of None \<Rightarrow> [] | Some x \<Rightarrow> [Warn ''healthcheck ping failed''])"
    by (simp add: broadcastSucceeded_def split: option.splits)
  from Cons.IH [OF r] have "\<not> broadcastSucceeded evs2" .
  with Cons.prems w show ?case
    by (auto simp: a g r Let_def broadcastSucceeded_Cons broadcastSucceeded_append
        split: option.splits)
qed



section \<open>Properties of the vote string\<close>

lemma sort_key_same_set:
  assumes "distinct (map f xs)" "distinct (map f ys)" "set xs = set ys"
  shows "sort_key f xs = sort_key f ys"
proof -
  from assms(1) have dx: "distinct xs" and inj: "inj_on f (set xs)"
    by (simp_all add: distinct_map)
  from assms(2) have dy: "distinct ys" by (simp add: distinct_map)
  have i: "inj_on f (set (sort_key f xs) \<union> set (sort_key f ys))"
    using inj assms(3) by simp
  have 1: "distinct (map f (sort_key f xs))"
    using dx inj by (simp add: distinct_map)
  have 2: "distinct (map f (sort_key f ys))"
    using dy inj assms(3) by (simp add: distinct_map)
  have 3: "set (sort_key f xs) = set (sort_key f ys)"
    using assms(3) by simp
  from map_sorted_distinct_set_unique [OF i sorted_sort_key 1 sorted_sort_key 2 3]
  show ?thesis .
qed

lemma GenerateExchangeRatesString_stable_aux:
  assumes "distinct (map Denom xs)" "distinct (map Denom ys)" "set xs = set ys"
  shows "GenerateExchangeRatesString xs = GenerateExchangeRatesString ys \<and>
         GenerateExchangeRatesString xs = joinCommas (map DecCoin_String (DecCoins_Sort xs)) \<and>
         sorted (map Denom (DecCoins_Sort xs)) \<and>
         set (DecCoins_Sort xs) = set xs \<and> length (DecCoins_Sort xs) = length xs"
proof -
  have "GenerateExchangeRatesString xs = GenerateExchangeRatesString ys"
    using sort_key_same_set [OF assms]
    by (simp only: GenerateExchangeRatesString_def DecCoins_Sort_def)
  moreover have "GenerateExchangeRatesString xs = joinCommas (map DecCoin_String (DecCoins_Sort xs))"
    by (simp add: GenerateExchangeRatesString_def DecCoins_String_def)
  moreover have "sorted (map Denom (DecCoins_Sort xs))"
    by (simp add: DecCoins_Sort_def sorted_sort_key)
  moreover have "set (DecCoins_Sort xs) = set xs \<and> length (DecCoins_Sort xs) = length xs"
    by (simp add: DecCoins_Sort_def)
  ultimately show ?thesis by blast
qed

section \<open>Evaluation of the decimals\<close>



section \<open>VWAP is bounded by the submitted prices\<close>




section \<open>TVWAP of stale candles\<close>




section \<open>The weight of a candle\<close>

text \<open>
  C1 at a concrete input. With \<open>now = 1000000\<close> and candles 60 and 30 seconds old, the
  period is 60000, \<open>weightUnit\<close> is \<open>-0.2 / 60000\<close>, and the factor that multiplies the
  volume of the newer candle is \<open>weightUnit * ((period - timeDiff) + minimumTimeWeight)\<close>,
  about \<open>-0.1\<close>; that of the oldest candle is about \<open>-0.0000007\<close>. Both are negative, and
  so are both sums.
\<close>

theorem ComputeTVWAP_weights_negative:
  "weightUnitOf (LegacyNewDec 60000) = Inr (- 3333333333333) \<and>
   candleWeight (- 3333333333333) (LegacyNewDec 60000) (LegacyNewDec 30000) = - 100000666666656667 \<and>
   candleWeight (- 3333333333333) (LegacyNewDec 60000) (LegacyNewDec 60000) = - 666666666667 \<and>
   tvwap_sums 1000000 700000 0 fresh_candles =
     Inr ([(''ATOM'', - 3600030666666306682)], [(''ATOM'', - 300002666666636668)])"
  by code_simp

section \<open>An empty candle slice\<close>



section \<open>Mean and standard deviation\<close>






section \<open>Evaluation of the oracle on the concrete inputs\<close>

lemma SetPrices_example:
  "SetPrices env_example oracle_example =
     (Inr None,
      oracle_example\<lparr>priceProviders := [(''kraken'', Provider ''kraken'')],
                     failedProviders := [(''okx'', External ''websocket dial failed'')],
                     prices := [(''ATOM'', 10000000000000000000)]\<rparr>)"
  by code_simp

lemma requiredRatesOf_example: "requiredRatesOf env_example oracle_example = [''ATOM'']"
  by code_simp


lemma providerCalls_example:
  "providerCalls calls_example oracle_example =
     ([Inr (Provider ''kraken''), Inl (External ''dial''), Inr (Provider ''kraken''),
       Inl (FailedAtFirstInit (External ''dial''))],
      oracle_example\<lparr>priceProviders := [(''kraken'', Provider ''kraken'')],
                     failedProviders := [(''okx'', External ''dial'')]\<rparr>,
      [''kraken'', ''okx''])"
  by code_simp

section \<open>Required rates\<close>

text \<open>
  C2, as the code has it. \<open>SetPrices\<close> skips a provider whose adapter cannot be had, before
  it looks at that provider's pairs. So with no test hook installed the required rates
  are the bases of the pairs of the providers that are not marked failed when the loop
  is done, as far as the chain denomination of the base is in the cached whitelist.
  \<open>SetPrices\<close> returns an error exactly when \<open>GetComputedPrices\<close> returns one or a required
  base has no computed price. Unless it returns without error and without panic the
  stored prices are the ones stored before; when it returns without error they are
  the computed prices.
\<close>

theorem SetPrices_required_rates:
  assumes "mockSetPrices orc = None"
  shows "set (requiredRatesOf env orc) =
           {Base pair | name pairs pair.
              (name, pairs) \<in> set (providerPairs orc) \<and> pair \<in> set pairs \<and>
              map_of (failedProviders (snd (SetPrices env orc))) name = None \<and>
              Whitelist_Contains (Whitelist (paramCache_params orc))
                (lookupString (chainDenomMapping orc) (Base pair))} \<and>
         ((\<exists>err. fst (SetPrices env orc) = Inr (Some err)) =
            ((\<exists>err. computedPricesOf env orc = Inr (Inl err)) \<or>
             (\<exists>computedPrices. computedPricesOf env orc = Inr (Inr computedPrices) \<and>
                list_ex (\<lambda>base. map_of computedPrices base = None) (requiredRatesOf env orc)))) \<and>
         (fst (SetPrices env orc) \<noteq> Inr None \<longrightarrow> prices (snd (SetPrices env orc)) = prices orc) \<and>
         (fst (SetPrices env orc) = Inr None \<longrightarrow>
            computedPricesOf env orc = Inr (Inr (prices (snd (SetPrices env orc)))))"
  using SetPrices_properties [OF assms] .

theorem SetPrices_required_rates_witness:
  "fst (SetPrices env_example oracle_example) = Inr None \<and>
   computedPricesOf env_example oracle_example = Inr (Inr [(''ATOM'', 10000000000000000000)])"
proof -
  have h: "mockSetPrices oracle_example = None" by (simp add: oracle_example_def)
  have r: "fst (SetPrices env_example oracle_example) = Inr None"
    by (simp add: SetPrices_example)
  have p: "prices (snd (SetPrices env_example oracle_example)) = [(''ATOM'', 10000000000000000000)]"
    by (simp add: SetPrices_example)
  from SetPrices_required_rates [OF h, of env_example] r
  have "computedPricesOf env_example oracle_example =
          Inr (Inr (prices (snd (SetPrices env_example oracle_example))))" by blast
  with r p show ?thesis by simp
qed

text \<open>
  The claim counts every configured base with a whitelisted denomination as required.
  In \<open>oracle_example\<close> the base KII is configured on okx, whose constructor fails in
  \<open>env_example\<close>, and its denomination is whitelisted; it is not among the required rates, it
  has no computed price, and \<open>SetPrices\<close> returns no error and stores the prices.
\<close>

theorem SetPrices_required_rates_counterexample:
  "map_of (providerPairs oracle_example) ''okx'' = Some [\<lparr>Base = ''KII'', Quote = ''USDT''\<rparr>] \<and>
   Whitelist_Contains (Whitelist (paramCache_params oracle_example))
     (lookupString (chainDenomMapping oracle_example) ''KII'') \<and>
   requiredRatesOf env_example oracle_example = [''ATOM''] \<and>
   fst (SetPrices env_example oracle_example) = Inr None \<and>
   prices (snd (SetPrices env_example oracle_example)) = [(''ATOM'', 10000000000000000000)] \<and>
   map_of (prices (snd (SetPrices env_example oracle_example))) ''KII'' = None"
  by (simp add: SetPrices_example requiredRatesOf_example)
     (simp add: oracle_example_def Whitelist_Contains_def lookupString_def)

section \<open>The vote period\<close>



section \<open>A health check that does not answer\<close>

text \<open>
  C4 at a concrete input. The health check URL of \<open>oracle_example\<close> does not answer in
  \<open>env_unreachable\<close>: \<^verbatim>\<open>client.Get\<close> returns a nil response and an error. The warning is
  logged, and closing the body of the nil response panics; the tick that has just
  broadcast its vote and advanced \<open>previousVotePeriod\<close> panics with it.
\<close>

theorem healthchecksPing_nil_response:
  "healthchecksPing env_unreachable oracle_example =
     (Some NilPointerDereference,
      [HttpGet ''https://hc-ping.com/HEALTHCHECK-UUID'', Warn ''healthcheck ping failed'']) \<and>
   tick env_unreachable oracle_example 9 =
     (Inl NilPointerDereference,
      oracle_example\<lparr>previousVotePeriod := Finite 1,
                     priceProviders := [(''kraken'', Provider ''kraken'')],
                     failedProviders := [(''okx'', External ''websocket dial failed'')],
                     prices := [(''ATOM'', 10000000000000000000)]\<rparr>,
      [Broadcast \<lparr>ExchangeRates = ''10.000000000000000000uatom'', Feeder = ''kii1'',
                   Validator = ''kiivaloper1''\<rparr>
         (Inr \<lparr>Code = 0, TxHash = ''AB12''\<rparr>),
       HttpGet ''https://hc-ping.com/HEALTHCHECK-UUID'',
       Warn ''healthcheck ping failed''])"
  by code_simp

section \<open>The canonical vote string\<close>

text \<open>
  C8, as the code has it. \<open>GenerateExchangeRatesString\<close> is a function of the coins it is
  given. Two slices whose denominations are pairwise distinct, as they are in every
  valid \<^verbatim>\<open>DecCoins\<close>, and that hold the same coins in any order give the same string:
  the coins of the slice sorted ascending by denomination, each rendered as amount
  and denomination, joined by commas.
\<close>

theorem GenerateExchangeRatesString_stable:
  assumes "distinct (map Denom xs)" "distinct (map Denom ys)" "set xs = set ys"
  shows "GenerateExchangeRatesString xs = GenerateExchangeRatesString ys \<and>
         GenerateExchangeRatesString xs = joinCommas (map DecCoin_String (DecCoins_Sort xs)) \<and>
         sorted (map Denom (DecCoins_Sort xs)) \<and>
         set (DecCoins_Sort xs) = set xs \<and> length (DecCoins_Sort xs) = length xs"
  using GenerateExchangeRatesString_stable_aux [OF assms] .

theorem GenerateExchangeRatesString_stable_witness:
  "GenerateExchangeRatesString
     [\<lparr>Denom = ''ukii'', Amount = 500000000000000000\<rparr>,
      \<lparr>Denom = ''uatom'', Amount = 11500000000000000000\<rparr>] =
   GenerateExchangeRatesString
     [\<lparr>Denom = ''uatom'', Amount = 11500000000000000000\<rparr>,
      \<lparr>Denom = ''ukii'', Amount = 500000000000000000\<rparr>] \<and>
   GenerateExchangeRatesString
     [\<lparr>Denom = ''uatom'', Amount = 11500000000000000000\<rparr>,
      \<lparr>Denom = ''ukii'', Amount = 500000000000000000\<rparr>] =
   ''11.500000000000000000uatom,0.500000000000000000ukii''"
proof -
  let ?xs = "[\<lparr>Denom = ''ukii'', Amount = 500000000000000000\<rparr>,
              \<lparr>Denom = ''uatom'', Amount = 11500000000000000000\<rparr>]"
  let ?ys = "[\<lparr>Denom = ''uatom'', Amount = 11500000000000000000\<rparr>,
              \<lparr>Denom = ''ukii'', Amount = 500000000000000000\<rparr>]"
  have 1: "distinct (map Denom ?xs)" by simp
  have 2: "distinct (map Denom ?ys)" by simp
  have 3: "set ?xs = set ?ys" by auto
  have v: "GenerateExchangeRatesString ?ys = ''11.500000000000000000uatom,0.500000000000000000ukii''"
    by code_simp
  from GenerateExchangeRatesString_stable [OF 1 2 3] v show ?thesis by blast
qed

text \<open>
  Without distinct denominations the order of the input shows in the string: the same
  two coins of one denomination, in the two orders.
\<close>

theorem GenerateExchangeRatesString_order_counterexample:
  "set [\<lparr>Denom = ''uatom'', Amount = 1000000000000000000\<rparr>,
        \<lparr>Denom = ''uatom'', Amount = 2000000000000000000\<rparr>] =
   set [\<lparr>Denom = ''uatom'', Amount = 2000000000000000000\<rparr>,
        \<lparr>Denom = ''uatom'', Amount = 1000000000000000000\<rparr>] \<and>
   GenerateExchangeRatesString
     [\<lparr>Denom = ''uatom'', Amount = 1000000000000000000\<rparr>,
      \<lparr>Denom = ''uatom'', Amount = 2000000000000000000\<rparr>] =
     ''1.000000000000000000uatom,2.000000000000000000uatom'' \<and>
   GenerateExchangeRatesString
     [\<lparr>Denom = ''uatom'', Amount = 2000000000000000000\<rparr>,
      \<lparr>Denom = ''uatom'', Amount = 1000000000000000000\<rparr>] =
     ''2.000000000000000000uatom,1.000000000000000000uatom''"
proof -
  have 1: "set [\<lparr>Denom = ''uatom'', Amount = 1000000000000000000\<rparr>,
        \<lparr>Denom = ''uatom'', Amount = 2000000000000000000\<rparr>] =
   set [\<lparr>Denom = ''uatom'', Amount = 2000000000000000000\<rparr>,
        \<lparr>Denom = ''uatom'', Amount = 1000000000000000000\<rparr>]" by auto
  have 2: "GenerateExchangeRatesString
     [\<lparr>Denom = ''uatom'', Amount = 1000000000000000000\<rparr>,
      \<lparr>Denom = ''uatom'', Amount = 2000000000000000000\<rparr>] =
     ''1.000000000000000000uatom,2.000000000000000000uatom''" by code_simp
  have 3: "GenerateExchangeRatesString
     [\<lparr>Denom = ''uatom'', Amount = 2000000000000000000\<rparr>,
      \<lparr>Denom = ''uatom'', Amount = 1000000000000000000\<rparr>] =
     ''2.000000000000000000uatom,1.000000000000000000uatom''" by code_simp
  from 1 2 3 show ?thesis by blast
qed

section \<open>The provider cache\<close>

lemma providerCalls_keeps_settled:
  "settled orc n r \<Longrightarrow> providerCalls calls orc = (rs, orc', made) \<Longrightarrow> settled orc' n r"
proof (induction calls arbitrary: orc rs made orc')
  case Nil
  then show ?case by simp
next
  case (Cons a calls)
  obtain c m where a: "a = (c, m)" by (cases a)
  obtain r1 orc1 made1 where s: "getOrSetProvider c orc m = (r1, orc1, made1)"
    by (cases "getOrSetProvider c orc m")
  obtain rs2 orc2 made2 where t: "providerCalls calls orc1 = (rs2, orc2, made2)"
    by (cases "providerCalls calls orc1")
  from Cons.prems(2) have o: "orc' = orc2" by (simp add: a s t)
  have "settled orc1 n r" using getOrSetProvider_keeps_settled [OF Cons.prems(1) s] .
  from Cons.IH [OF this t] show ?case by (simp add: o)
qed

lemma providerCalls_recorded:
  "providerCalls calls orc = (rs, orc', made) \<Longrightarrow>
     \<forall>i < length calls.
        (case rs ! i of
           Inr p \<Rightarrow> map_of (priceProviders orc') (snd (calls ! i)) = Some p \<and>
                     map_of (failedProviders orc') (snd (calls ! i)) = None
         | Inl e \<Rightarrow> map_of (failedProviders orc') (snd (calls ! i)) \<noteq> None)"
proof (induction calls arbitrary: orc rs made orc')
  case Nil
  then show ?case by simp
next
  case (Cons a calls)
  obtain c n where a: "a = (c, n)" by (cases a)
  obtain r orc1 made1 where s: "getOrSetProvider c orc n = (r, orc1, made1)"
    by (cases "getOrSetProvider c orc n")
  obtain rs2 orc2 made2 where t: "providerCalls calls orc1 = (rs2, orc2, made2)"
    by (cases "providerCalls calls orc1")
  from Cons.prems have rs: "rs = r # rs2" and o: "orc' = orc2" by (simp_all add: a s t)
  from getOrSetProvider_settles [OF s] obtain r' where st: "settled orc1 n r'"
    and rel: "case r of Inr p \<Rightarrow> r' = Inr p | Inl e \<Rightarrow> (\<exists>e0. r' = Inl (FailedAtFirstInit e0))"
    by blast
  have fin: "settled orc' n r'" using providerCalls_keeps_settled [OF st t] by (simp add: o)
  have head: "case r of
           Inr p \<Rightarrow> map_of (priceProviders orc') n = Some p \<and> map_of (failedProviders orc') n = None
         | Inl e \<Rightarrow> map_of (failedProviders orc') n \<noteq> None"
    using fin rel by (auto simp: settled_def split: sum.splits option.splits)
  show ?case
  proof (intro allI impI)
    fix i assume i: "i < length (a # calls)"
    show "case rs ! i of
           Inr p \<Rightarrow> map_of (priceProviders orc') (snd ((a # calls) ! i)) = Some p \<and>
                     map_of (failedProviders orc') (snd ((a # calls) ! i)) = None
         | Inl e \<Rightarrow> map_of (failedProviders orc') (snd ((a # calls) ! i)) \<noteq> None"
    proof (cases i)
      case 0
      with head show ?thesis by (simp add: rs a cong: sum.case_cong)
    next
      case (Suc k)
      with i have "k < length calls" by simp
      with Cons.IH [OF t] have "case rs2 ! k of
           Inr p \<Rightarrow> map_of (priceProviders orc2) (snd (calls ! k)) = Some p \<and>
                     map_of (failedProviders orc2) (snd (calls ! k)) = None
         | Inl e \<Rightarrow> map_of (failedProviders orc2) (snd (calls ! k)) \<noteq> None" by blast
      then show ?thesis by (simp add: Suc rs o cong: sum.case_cong)
    qed
  qed
qed

text \<open>
  C9. In any sequence of calls of \<open>getOrSetProvider\<close>, from any state of the oracle and
  whatever the constructors would answer at each call, \<open>NewProvider\<close> is run at most once
  for each provider name. After a call that returned an adapter every later call for
  that name returns the same adapter, which the oracle holds in \<open>priceProviders\<close>; after
  a call that returned an error every later call for that name returns the error
  \<open>failed at first init\<close>, and the oracle holds the name in \<open>failedProviders\<close>.
\<close>

theorem getOrSetProvider_once:
  assumes "providerCalls calls orc = (rs, orc', made)"
  shows "distinct made \<and> length rs = length calls \<and>
         (\<forall>i j. i < j \<and> j < length calls \<and> snd (calls ! i) = snd (calls ! j) \<longrightarrow>
            (case rs ! i of
               Inr p \<Rightarrow> rs ! j = Inr p
             | Inl e \<Rightarrow> (\<exists>e0. rs ! j = Inl (FailedAtFirstInit e0)))) \<and>
         (\<forall>i < length calls.
            (case rs ! i of
               Inr p \<Rightarrow> map_of (priceProviders orc') (snd (calls ! i)) = Some p \<and>
                         map_of (failedProviders orc') (snd (calls ! i)) = None
             | Inl e \<Rightarrow> map_of (failedProviders orc') (snd (calls ! i)) \<noteq> None))"
  using getOrSetProvider_once_aux [OF assms] providerCalls_recorded [OF assms] by blast

theorem getOrSetProvider_once_witness:
  "\<exists>rs orc' made. providerCalls calls_example oracle_example = (rs, orc', made) \<and>
     made = [''kraken'', ''okx''] \<and> distinct made \<and>
     rs ! 0 = Inr (Provider ''kraken'') \<and> rs ! 2 = Inr (Provider ''kraken'') \<and>
     rs ! 1 = Inl (External ''dial'') \<and>
     rs ! 3 = Inl (FailedAtFirstInit (External ''dial''))"
proof -
  obtain rs orc' made where p: "providerCalls calls_example oracle_example = (rs, orc', made)"
    by (cases "providerCalls calls_example oracle_example")
  from getOrSetProvider_once [OF p] have d: "distinct made" by blast
  from p have v: "made = [''kraken'', ''okx'']"
    "rs = [Inr (Provider ''kraken''), Inl (External ''dial''), Inr (Provider ''kraken''),
       Inl (FailedAtFirstInit (External ''dial''))]"
    by (simp_all add: providerCalls_example)
  have n: "rs ! 0 = Inr (Provider ''kraken'')" "rs ! 2 = Inr (Provider ''kraken'')"
    "rs ! 1 = Inl (External ''dial'')" "rs ! 3 = Inl (FailedAtFirstInit (External ''dial''))"
    by (simp_all add: v)
  from p d v(1) n show ?thesis by blast
qed

end
